theory Spec2Isabelle
  imports Main "HOL-Library.Finite_Map"
begin

section \<open>JavaScript values\<close>

text \<open>
  The module \<^verbatim>\<open>src/index.ts\<close> builds plain objects, reads their \<^verbatim>\<open>ok\<close> property,
  throws values and awaits values. The values it can meet are modelled by one datatype:
  the primitives, \<^verbatim>\<open>Error\<close> instances (name and message), plain objects (a finite map
  from property names to values: the own enumerable properties, which is all that object
  spread reads), functions and promises. A promise is given by the state it ends in: it
  stays pending for ever, is fulfilled with a value, or is rejected with a reason.
  The module never calls a function that it finds inside a value; the one place where
  the language does so is promise resolution, which calls the \<^verbatim>\<open>then\<close> method of the
  value a promise is resolved with. So a function value is given by what it does there:
  the state in which a promise ends that is resolved with an object whose \<^verbatim>\<open>then\<close> is
  this function (fulfilled with what the method hands to \<^verbatim>\<open>resolve\<close>, rejected with
  what it hands to \<^verbatim>\<open>reject\<close> or throws, pending for ever when it calls neither).
  Numbers are the integral ones. The callbacks that the module is passed and calls
  itself are HOL functions.

  The file holds two revisions of the module, one after the other. The constructors and
  the two catch functions are the same text in both; \<^verbatim>\<open>unwrapSync\<close>, \<^verbatim>\<open>unwrap\<close> and
  \<^verbatim>\<open>assert\<close> are modelled as the later revision has them, with a producer function
  for the thrown value.
\<close>

datatype jsval =
    JUndefined
  | JNull
  | JBool bool
  | JNum int
  | JStr string
  | JError string string
  | JObj "(string, jsval) fmap"
  | JFunction promise
  | JPromise promise
and promise =
    Pending
  | Fulfilled jsval
  | Rejected jsval

type_synonym object = "(string, jsval) fmap"

text \<open>
  A call either throws a value (\<open>Inl\<close>) or returns one (\<open>Inr\<close>).
\<close>

type_synonym 'a completion = "jsval + 'a"

text \<open>\<^verbatim>\<open>if (v)\<close>: the values that count as false are \<^verbatim>\<open>undefined\<close>, \<^verbatim>\<open>null\<close>,
  \<^verbatim>\<open>false\<close>, \<^verbatim>\<open>0\<close> and the empty string.\<close>

fun truthy :: "jsval \<Rightarrow> bool" where
  "truthy JUndefined = False"
| "truthy JNull = False"
| "truthy (JBool b) = b"
| "truthy (JNum n) = (n \<noteq> 0)"
| "truthy (JStr s) = (s \<noteq> [])"
| "truthy (JError name msg) = True"
| "truthy (JObj fields) = True"
| "truthy (JFunction f) = True"
| "truthy (JPromise p) = True"

fun nullish :: "jsval \<Rightarrow> bool" where
  "nullish JUndefined = True"
| "nullish JNull = True"
| "nullish (JBool b) = False"
| "nullish (JNum n) = False"
| "nullish (JStr s) = False"
| "nullish (JError name msg) = False"
| "nullish (JObj fields) = False"
| "nullish (JFunction f) = False"
| "nullish (JPromise p) = False"

text \<open>\<^verbatim>\<open>a ?? b\<close>\<close>

definition nullish_coalesce :: "jsval \<Rightarrow> jsval \<Rightarrow> jsval" where
  "nullish_coalesce a b = (if nullish a then b else a)"

text \<open>\<^verbatim>\<open>obj.key\<close>: a property that is absent reads as \<^verbatim>\<open>undefined\<close>.\<close>

definition get :: "object \<Rightarrow> string \<Rightarrow> jsval" where
  "get obj key = (case fmlookup obj key of None \<Rightarrow> JUndefined | Some v \<Rightarrow> v)"

text \<open>\<^verbatim>\<open>...value\<close> inside an object literal, for \<^verbatim>\<open>value?: object\<close>: an omitted
  argument is \<^verbatim>\<open>undefined\<close> and spreads to no property at all.\<close>

definition spread :: "object option \<Rightarrow> object" where
  "spread v = (case v of None \<Rightarrow> fmempty | Some fields \<Rightarrow> fields)"

text \<open>\<^verbatim>\<open>f?.(x)\<close>: \<^verbatim>\<open>undefined\<close> when the function is omitted, the call otherwise.\<close>

definition optional_call :: "('a \<Rightarrow> jsval completion) option \<Rightarrow> 'a \<Rightarrow> jsval completion" where
  "optional_call f x = (case f of None \<Rightarrow> Inr JUndefined | Some g \<Rightarrow> g x)"

text \<open>\<^verbatim>\<open>new Error(message)\<close>\<close>

definition new_Error :: "string \<Rightarrow> jsval" where
  "new_Error message = JError ''Error'' message"

text \<open>\<^verbatim>\<open>typeof v === "function"\<close>\<close>

fun callable :: "jsval \<Rightarrow> bool" where
  "callable (JFunction f) = True"
| "callable v = False"

text \<open>\<^verbatim>\<open>await v\<close>: a promise gives its own final state; an object whose \<^verbatim>\<open>then\<close> is
  a function is followed, and gives the state that this method leads to; any other
  value is fulfilled at once.\<close>

fun await :: "jsval \<Rightarrow> promise" where
  "await (JPromise p) = p"
| "await (JObj fields) =
     (case fmlookup fields ''then'' of
        Some (JFunction f) \<Rightarrow> f
      | _ \<Rightarrow> Fulfilled (JObj fields))"
| "await v = Fulfilled v"

text \<open>\<^verbatim>\<open>return v\<close> in an \<^verbatim>\<open>async\<close> function resolves the promise of the call with
  \<^verbatim>\<open>v\<close>. Resolution follows a promise and a \<^verbatim>\<open>then\<close> method in the same way as
  \<^verbatim>\<open>await\<close> does, so the promise ends in the state that awaiting \<^verbatim>\<open>v\<close> gives.\<close>

definition async_return :: "jsval \<Rightarrow> promise" where
  "async_return v = await v"

section \<open>Constructors\<close>

text \<open>
  \<^verbatim>\<open>export function ok(value?: object): Ok { return { ok: true, ...value }; }\<close>

  The literal sets \<^verbatim>\<open>ok\<close> first and then copies the properties of the payload over
  it, so on a common name the payload's property is the one that stays.
\<close>

definition ok :: "object option \<Rightarrow> object" where
  "ok v = fmadd (fmupd ''ok'' (JBool True) fmempty) (spread v)"

text \<open>
  \<^verbatim>\<open>export function err(error?: object): Err { return { ok: false, ...error }; }\<close>
\<close>

definition err :: "object option \<Rightarrow> object" where
  "err e = fmadd (fmupd ''ok'' (JBool False) fmempty) (spread e)"

text \<open>
  \<^verbatim>\<open>export function when(isOk: boolean, value?: object): Result {
    return isOk ? ok(value) : err(value); }\<close>
\<close>

definition "when" :: "bool \<Rightarrow> object option \<Rightarrow> object" where
  "when isOk v = (if isOk then ok v else err v)"

section \<open>Extraction and enforcement\<close>

text \<open>
  \<^verbatim>\<open>export function unwrapSync(result, elseThrow?) {
    if (result.ok) return result;
    else throw elseThrow?.(result) ?? new Error("Error was unwrapped"); }\<close>

  A producer that throws ends the call with what it threw.
\<close>

definition unwrapSync ::
  "object \<Rightarrow> (object \<Rightarrow> jsval completion) option \<Rightarrow> object completion" where
  "unwrapSync result elseThrow =
     (if truthy (get result ''ok'') then Inr result
      else (case optional_call elseThrow result of
              Inl thrown \<Rightarrow> Inl thrown
            | Inr v \<Rightarrow> Inl (nullish_coalesce v (new_Error ''Error was unwrapped''))))"

text \<open>
  \<^verbatim>\<open>export async function unwrap(result, elseThrow?) {
    if (result.ok) return result;
    else throw await elseThrow?.(result) ?? new Error("Error was unwrapped"); }\<close>

  \<^verbatim>\<open>await\<close> binds tighter than \<^verbatim>\<open>??\<close>: the producer's value is awaited, then
  coalesced. The result is the final state of the promise the async function returns:
  \<^verbatim>\<open>return result\<close> resolves it with the result, \<^verbatim>\<open>throw\<close> rejects it with the value
  thrown, as it is.
\<close>

definition unwrap ::
  "object \<Rightarrow> (object \<Rightarrow> jsval completion) option \<Rightarrow> promise" where
  "unwrap result elseThrow =
     (if truthy (get result ''ok'') then async_return (JObj result)
      else (case optional_call elseThrow result of
              Inl thrown \<Rightarrow> Rejected thrown
            | Inr x \<Rightarrow>
                (case await x of
                   Pending \<Rightarrow> Pending
                 | Rejected reason \<Rightarrow> Rejected reason
                 | Fulfilled v \<Rightarrow>
                     Rejected (nullish_coalesce v (new_Error ''Error was unwrapped'')))))"

text \<open>
  \<^verbatim>\<open>export function assert(result, elseThrow?) {
    if (result.ok) return;
    else throw elseThrow?.(result) ?? new Error("Error was asserted"); }\<close>
\<close>

definition assert ::
  "object \<Rightarrow> (object \<Rightarrow> jsval completion) option \<Rightarrow> unit completion" where
  "assert result elseThrow =
     (if truthy (get result ''ok'') then Inr ()
      else (case optional_call elseThrow result of
              Inl thrown \<Rightarrow> Inl thrown
            | Inr v \<Rightarrow> Inl (nullish_coalesce v (new_Error ''Error was asserted''))))"

section \<open>From thrown values to results\<close>

text \<open>
  \<^verbatim>\<open>export function catchErrSync(cb, test?) {
    try { return ok({ value: cb() }); }
    catch (caught) { if (test?.(caught)) return err({ caught }); throw caught; } }\<close>

  The filter is declared to return a boolean; the \<^verbatim>\<open>if\<close> takes whatever it returns
  by its truth value, and a filter that throws ends the call with what it threw.
\<close>

definition catchErrSync ::
  "(unit \<Rightarrow> jsval completion) \<Rightarrow> (jsval \<Rightarrow> jsval completion) option \<Rightarrow> object completion" where
  "catchErrSync cb test =
     (case cb () of
        Inr v \<Rightarrow> Inr (ok (Some (fmupd ''value'' v fmempty)))
      | Inl caught \<Rightarrow>
          (case optional_call test caught of
             Inl thrown \<Rightarrow> Inl thrown
           | Inr t \<Rightarrow>
               if truthy t then Inr (err (Some (fmupd ''caught'' caught fmempty)))
               else Inl caught))"

text \<open>
  \<^verbatim>\<open>export async function catchErr(cb, test?) {
    try { return ok({ value: await cb() }); }
    catch (caught) { if (test?.(caught)) return err({ caught }); throw caught; } }\<close>

  The \<^verbatim>\<open>try\<close> block fails when the callback throws and when the promise it returned
  is rejected; both reach the same \<^verbatim>\<open>catch\<close> clause.
\<close>

definition catchErr ::
  "(unit \<Rightarrow> jsval completion) \<Rightarrow> (jsval \<Rightarrow> jsval completion) option \<Rightarrow> promise" where
  "catchErr cb test =
     (let catch = (\<lambda>caught.
            case optional_call test caught of
              Inl thrown \<Rightarrow> Rejected thrown
            | Inr t \<Rightarrow>
                if truthy t then async_return (JObj (err (Some (fmupd ''caught'' caught fmempty))))
                else Rejected caught)
      in case cb () of
           Inl caught \<Rightarrow> catch caught
         | Inr x \<Rightarrow>
             (case await x of
                Pending \<Rightarrow> Pending
              | Rejected caught \<Rightarrow> catch caught
              | Fulfilled v \<Rightarrow> async_return (JObj (ok (Some (fmupd ''value'' v fmempty))))))"

section \<open>Properties of the constructors\<close>

lemma lookup_ok:
  "fmlookup (ok v) k =
     (case fmlookup (spread v) k of
        Some x \<Rightarrow> Some x
      | None \<Rightarrow> if k = ''ok'' then Some (JBool True) else None)"
  by (auto simp: ok_def fmlookup_dom_iff split: option.splits)

lemma lookup_err:
  "fmlookup (err v) k =
     (case fmlookup (spread v) k of
        Some x \<Rightarrow> Some x
      | None \<Rightarrow> if k = ''ok'' then Some (JBool False) else None)"
  by (auto simp: err_def fmlookup_dom_iff split: option.splits)

lemma fmdom_ok: "fmdom (ok v) = finsert ''ok'' (fmdom (spread v))"
  by (auto simp: ok_def)

lemma fmdom_err: "fmdom (err v) = finsert ''ok'' (fmdom (spread v))"
  by (auto simp: err_def)

text \<open>A payload's own \<^verbatim>\<open>ok\<close> property replaces the discriminant, whatever it holds.\<close>

lemma payload_overrides_discriminant:
  "fmlookup P ''ok'' = Some x \<Longrightarrow> get (ok (Some P)) ''ok'' = x \<and> get (err (Some P)) ''ok'' = x"
  by (simp add: get_def lookup_ok lookup_err spread_def)

text \<open>The two shapes that the catch functions build.\<close>

lemma ok_value_fields:
  "ok (Some (fmupd ''value'' v fmempty)) = fmupd ''value'' v (fmupd ''ok'' (JBool True) fmempty)"
  by (simp add: ok_def spread_def)

lemma err_caught_fields:
  "err (Some (fmupd ''caught'' s fmempty)) = fmupd ''caught'' s (fmupd ''ok'' (JBool False) fmempty)"
  by (simp add: err_def spread_def)



text \<open>What \<^verbatim>\<open>then\<close> reads as on a built value is what it reads as on the payload.\<close>

lemma lookup_then_ok: "fmlookup (ok v) ''then'' = fmlookup (spread v) ''then''"
  by (simp add: lookup_ok split: option.splits)

lemma async_return_plain:
  "\<not> callable (get fields ''then'') \<Longrightarrow> async_return (JObj fields) = Fulfilled (JObj fields)"
  by (cases "get fields ''then''")
     (auto simp: async_return_def get_def split: option.splits jsval.splits)

lemma async_return_thenable:
  "fmlookup fields ''then'' = Some (JFunction f) \<Longrightarrow> async_return (JObj fields) = f"
  by (simp add: async_return_def)

text \<open>
  C2 (as amended). The \<^verbatim>\<open>ok\<close> property is present on every value built by \<^verbatim>\<open>ok\<close>,
  \<^verbatim>\<open>err\<close> or \<^verbatim>\<open>when\<close>. When the payload is omitted or has no property named \<^verbatim>\<open>ok\<close>
  of its own, the property is \<^verbatim>\<open>true\<close> on what \<^verbatim>\<open>ok\<close> builds, \<^verbatim>\<open>false\<close> on what
  \<^verbatim>\<open>err\<close> builds, and the condition itself on what \<^verbatim>\<open>when\<close> builds.
\<close>

theorem C2_discriminant_reflects_variant:
  "''ok'' |\<in>| fmdom (ok v) \<and> ''ok'' |\<in>| fmdom (err v) \<and> ''ok'' |\<in>| fmdom (when c v)
   \<and> (fmlookup (spread v) ''ok'' = None \<longrightarrow>
        fmlookup (ok v) ''ok'' = Some (JBool True)
      \<and> fmlookup (err v) ''ok'' = Some (JBool False)
      \<and> fmlookup (when c v) ''ok'' = Some (JBool c))"
  by (simp add: when_def fmdom_ok fmdom_err lookup_ok lookup_err)

text \<open>C2 at the payload \<^verbatim>\<open>{ reason: "too small" }\<close> and a false condition.\<close>

theorem C2_discriminant_reflects_variant_witness:
  "fmlookup (spread (Some (fmupd ''reason'' (JStr ''too small'') fmempty))) ''ok'' = None
   \<and> fmlookup (ok (Some (fmupd ''reason'' (JStr ''too small'') fmempty))) ''ok'' = Some (JBool True)
   \<and> fmlookup (err (Some (fmupd ''reason'' (JStr ''too small'') fmempty))) ''ok'' = Some (JBool False)
   \<and> fmlookup (when False (Some (fmupd ''reason'' (JStr ''too small'') fmempty))) ''ok''
       = Some (JBool False)"
  using C2_discriminant_reflects_variant
          [of "Some (fmupd ''reason'' (JStr ''too small'') fmempty)" False]
  by (simp add: spread_def)

text \<open>
  C2 as first stated fails for a payload that names its own \<^verbatim>\<open>ok\<close>:
  \<^verbatim>\<open>ok({ ok: false })\<close> has \<^verbatim>\<open>ok\<close> false, \<^verbatim>\<open>err({ ok: true })\<close> has it true, and
  \<^verbatim>\<open>when(true, { ok: false })\<close> has it false.
\<close>

theorem C2_payload_named_ok_counterexample:
  "fmlookup (ok (Some (fmupd ''ok'' (JBool False) fmempty))) ''ok'' = Some (JBool False)
   \<and> fmlookup (err (Some (fmupd ''ok'' (JBool True) fmempty))) ''ok'' = Some (JBool True)
   \<and> fmlookup (when True (Some (fmupd ''ok'' (JBool False) fmempty))) ''ok'' = Some (JBool False)"
  by (simp add: ok_def err_def when_def spread_def)

text \<open>
  C6 (as amended). For every payload \<open>P\<close>, every property of \<open>P\<close> is on \<^verbatim>\<open>ok(P)\<close> and on
  \<^verbatim>\<open>err(P)\<close> with the same value, next to the discriminant and with nothing else: the
  property names of the result are those of \<open>P\<close> and \<^verbatim>\<open>ok\<close>. When \<open>P\<close> has no property
  named \<^verbatim>\<open>ok\<close>, the discriminant of \<^verbatim>\<open>ok(P)\<close> is \<^verbatim>\<open>true\<close> and that of \<^verbatim>\<open>err(P)\<close> is
  \<^verbatim>\<open>false\<close>. With no payload each constructor gives the object that has the
  discriminant only.
\<close>

theorem C6_constructors_merge_payload:
  "(fmlookup P k = Some x \<longrightarrow>
      fmlookup (ok (Some P)) k = Some x \<and> fmlookup (err (Some P)) k = Some x)
   \<and> fmdom (ok (Some P)) = finsert ''ok'' (fmdom P)
   \<and> fmdom (err (Some P)) = finsert ''ok'' (fmdom P)
   \<and> (fmlookup P ''ok'' = None \<longrightarrow>
        get (ok (Some P)) ''ok'' = JBool True \<and> get (err (Some P)) ''ok'' = JBool False)
   \<and> ok None = fmupd ''ok'' (JBool True) fmempty
   \<and> err None = fmupd ''ok'' (JBool False) fmempty"
  by (simp add: lookup_ok lookup_err fmdom_ok fmdom_err get_def)
     (simp add: ok_def err_def spread_def)

text \<open>C6 at the payload \<^verbatim>\<open>{ count: 3 }\<close>.\<close>

theorem C6_constructors_merge_payload_witness:
  "fmlookup (fmupd ''count'' (JNum 3) fmempty) ''count'' = Some (JNum 3)
   \<and> fmlookup (ok (Some (fmupd ''count'' (JNum 3) fmempty))) ''count'' = Some (JNum 3)
   \<and> fmlookup (err (Some (fmupd ''count'' (JNum 3) fmempty))) ''count'' = Some (JNum 3)
   \<and> fmlookup (fmupd ''count'' (JNum 3) fmempty) ''ok'' = None
   \<and> get (ok (Some (fmupd ''count'' (JNum 3) fmempty))) ''ok'' = JBool True
   \<and> get (err (Some (fmupd ''count'' (JNum 3) fmempty))) ''ok'' = JBool False"
  using C6_constructors_merge_payload [of "fmupd ''count'' (JNum 3) fmempty" "''count''" "JNum 3"]
  by simp

text \<open>
  C6 as first stated fails at \<^verbatim>\<open>{ ok: false, count: 3 }\<close> for \<^verbatim>\<open>ok\<close> and at
  \<^verbatim>\<open>{ ok: true, count: 3 }\<close> for \<^verbatim>\<open>err\<close>: the discriminant of the result is the
  payload's, not the constructor's.
\<close>

theorem C6_discriminant_counterexample:
  "get (ok (Some (fmupd ''count'' (JNum 3) (fmupd ''ok'' (JBool False) fmempty)))) ''ok''
     = JBool False
   \<and> get (err (Some (fmupd ''count'' (JNum 3) (fmupd ''ok'' (JBool True) fmempty)))) ''ok''
     = JBool True"
  by (simp add: ok_def err_def spread_def get_def)

text \<open>
  C7. \<^verbatim>\<open>when(true, P)\<close> is the same object as \<^verbatim>\<open>ok(P)\<close> and \<^verbatim>\<open>when(false, P)\<close> the same
  object as \<^verbatim>\<open>err(P)\<close>, for every payload and also for an omitted one: the one payload
  argument goes to whichever constructor is chosen.
\<close>

theorem C7_when_is_ok_or_err:
  "when True v = ok v \<and> when False v = err v"
  by (simp add: when_def)

section \<open>Properties of unwrap and assert\<close>

text \<open>On any object whose \<^verbatim>\<open>ok\<close> counts as true the three functions take the first
  branch, whatever producer is passed.\<close>

lemma unwrapSync_truthy:
  "truthy (get result ''ok'') \<Longrightarrow> unwrapSync result elseThrow = Inr result"
  by (simp add: unwrapSync_def)

lemma unwrap_truthy:
  "truthy (get result ''ok'') \<Longrightarrow> unwrap result elseThrow = async_return (JObj result)"
  by (simp add: unwrap_def)

lemma assert_truthy:
  "truthy (get result ''ok'') \<Longrightarrow> assert result elseThrow = Inr ()"
  by (simp add: assert_def)

text \<open>A producer that throws, or whose promise is rejected, decides what is raised.\<close>

lemma producer_throws:
  "\<not> truthy (get result ''ok'') \<Longrightarrow> f result = Inl s \<Longrightarrow>
     unwrapSync result (Some f) = Inl s \<and> assert result (Some f) = Inl s
     \<and> unwrap result (Some f) = Rejected s"
  by (simp add: unwrapSync_def assert_def unwrap_def optional_call_def)

lemma producer_rejects:
  "\<not> truthy (get result ''ok'') \<Longrightarrow> f result = Inr x \<Longrightarrow> await x = Rejected s \<Longrightarrow>
     unwrap result (Some f) = Rejected s"
  by (simp add: unwrap_def optional_call_def)

text \<open>
  C8 (as amended). For an omitted payload and for every payload with no property named
  \<^verbatim>\<open>ok\<close>, \<^verbatim>\<open>unwrapSync\<close> returns \<^verbatim>\<open>ok(P)\<close> as it is, with or without a producer. When
  the payload moreover has no property named \<^verbatim>\<open>then\<close> that holds a function, the
  promise of \<^verbatim>\<open>unwrap\<close> is fulfilled with \<^verbatim>\<open>ok(P)\<close> as it is.
\<close>

theorem C8_unwrap_ok_is_identity:
  assumes "fmlookup (spread v) ''ok'' = None"
  shows "unwrapSync (ok v) elseThrow = Inr (ok v)
       \<and> (\<not> callable (get (spread v) ''then'') \<longrightarrow>
            unwrap (ok v) elseThrow = Fulfilled (JObj (ok v)))"
proof -
  from assms have discriminant: "truthy (get (ok v) ''ok'')"
    by (simp add: get_def lookup_ok)
  have "get (ok v) ''then'' = get (spread v) ''then''"
    by (simp add: get_def lookup_then_ok)
  then have "\<not> callable (get (spread v) ''then'') \<longrightarrow>
      async_return (JObj (ok v)) = Fulfilled (JObj (ok v))"
    by (simp add: async_return_plain)
  with discriminant show ?thesis
    by (simp add: unwrapSync_def unwrap_def)
qed

text \<open>C8 at the payload \<^verbatim>\<open>{ count: 3 }\<close>, no producer.\<close>

theorem C8_unwrap_ok_is_identity_witness:
  "fmlookup (spread (Some (fmupd ''count'' (JNum 3) fmempty))) ''ok'' = None
   \<and> \<not> callable (get (spread (Some (fmupd ''count'' (JNum 3) fmempty))) ''then'')
   \<and> unwrapSync (ok (Some (fmupd ''count'' (JNum 3) fmempty))) None
       = Inr (ok (Some (fmupd ''count'' (JNum 3) fmempty)))
   \<and> unwrap (ok (Some (fmupd ''count'' (JNum 3) fmempty))) None
       = Fulfilled (JObj (ok (Some (fmupd ''count'' (JNum 3) fmempty))))"
  using C8_unwrap_ok_is_identity [of "Some (fmupd ''count'' (JNum 3) fmempty)" None]
  by (simp add: spread_def get_def)

text \<open>
  C8 as first stated fails in two places. At the payload \<^verbatim>\<open>{ ok: false }\<close>, \<^verbatim>\<open>ok\<close> of
  it is \<^verbatim>\<open>{ ok: false }\<close>, and both forms of unwrap raise the default error on it. At
  the payload \<^verbatim>\<open>{ then(resolve) { resolve(5) } }\<close>, \<^verbatim>\<open>unwrapSync\<close> returns the input,
  but the promise of \<^verbatim>\<open>unwrap\<close> is resolved with an object that has a \<^verbatim>\<open>then\<close> method,
  follows it, and is fulfilled with \<^verbatim>\<open>5\<close>.
\<close>

theorem C8_unwrap_ok_counterexample:
  "unwrapSync (ok (Some (fmupd ''ok'' (JBool False) fmempty))) None
     = Inl (JError ''Error'' ''Error was unwrapped'')
   \<and> unwrap (ok (Some (fmupd ''ok'' (JBool False) fmempty))) None
     = Rejected (JError ''Error'' ''Error was unwrapped'')
   \<and> unwrap (ok (Some (fmupd ''then'' (JFunction (Fulfilled (JNum 5))) fmempty))) None
     = Fulfilled (JNum 5)"
  by (simp add: unwrapSync_def unwrap_def ok_def spread_def get_def optional_call_def
      nullish_coalesce_def new_Error_def async_return_def)

text \<open>
  C3 (as amended). For an omitted payload and for every payload with no property named
  \<^verbatim>\<open>ok\<close>, unwrap of \<^verbatim>\<open>err(P)\<close> raises. Without a producer, \<^verbatim>\<open>unwrapSync\<close> throws and
  \<^verbatim>\<open>unwrap\<close> rejects with the \<^verbatim>\<open>Error\<close> whose message is "Error was unwrapped". With a
  producer that returns a value other than \<^verbatim>\<open>null\<close> and \<^verbatim>\<open>undefined\<close>, \<^verbatim>\<open>unwrapSync\<close>
  throws that value; with a producer whose returned value, once awaited, is a value
  other than \<^verbatim>\<open>null\<close> and \<^verbatim>\<open>undefined\<close>, \<^verbatim>\<open>unwrap\<close> rejects with the awaited value.
\<close>

theorem C3_unwrap_err_raises:
  assumes "fmlookup (spread v) ''ok'' = None"
  shows "unwrapSync (err v) None = Inl (new_Error ''Error was unwrapped'')
       \<and> unwrap (err v) None = Rejected (new_Error ''Error was unwrapped'')
       \<and> (f (err v) = Inr r \<and> \<not> nullish r \<longrightarrow> unwrapSync (err v) (Some f) = Inl r)
       \<and> (g (err v) = Inr x \<and> await x = Fulfilled w \<and> \<not> nullish w \<longrightarrow>
            unwrap (err v) (Some g) = Rejected w)"
  using assms
  by (simp add: unwrapSync_def unwrap_def get_def lookup_err optional_call_def
      nullish_coalesce_def)

text \<open>C3 at the payload \<^verbatim>\<open>{ reason: "too small" }\<close>, with a producer that returns
  \<^verbatim>\<open>"custom"\<close> and one that returns a promise fulfilled with \<^verbatim>\<open>"custom"\<close>.\<close>

theorem C3_unwrap_err_raises_witness:
  "fmlookup (spread (Some (fmupd ''reason'' (JStr ''too small'') fmempty))) ''ok'' = None
   \<and> \<not> nullish (JStr ''custom'')
   \<and> await (JPromise (Fulfilled (JStr ''custom''))) = Fulfilled (JStr ''custom'')
   \<and> unwrapSync (err (Some (fmupd ''reason'' (JStr ''too small'') fmempty))) None
       = Inl (new_Error ''Error was unwrapped'')
   \<and> unwrap (err (Some (fmupd ''reason'' (JStr ''too small'') fmempty))) None
       = Rejected (new_Error ''Error was unwrapped'')
   \<and> unwrapSync (err (Some (fmupd ''reason'' (JStr ''too small'') fmempty)))
        (Some (\<lambda>e. Inr (JStr ''custom''))) = Inl (JStr ''custom'')
   \<and> unwrap (err (Some (fmupd ''reason'' (JStr ''too small'') fmempty)))
        (Some (\<lambda>e. Inr (JPromise (Fulfilled (JStr ''custom''))))) = Rejected (JStr ''custom'')"
  using C3_unwrap_err_raises
          [of "Some (fmupd ''reason'' (JStr ''too small'') fmempty)"
              "\<lambda>e. Inr (JStr ''custom'')" "JStr ''custom''"
              "\<lambda>e. Inr (JPromise (Fulfilled (JStr ''custom'')))"
              "JPromise (Fulfilled (JStr ''custom''))" "JStr ''custom''"]
  by (simp add: spread_def)

text \<open>
  C3 as first stated fails in two places. A producer that returns \<^verbatim>\<open>undefined\<close>, or a
  promise fulfilled with \<^verbatim>\<open>null\<close>, does not have its value raised: the default error
  is. And \<^verbatim>\<open>err({ ok: true })\<close> is \<^verbatim>\<open>{ ok: true }\<close>, which \<^verbatim>\<open>unwrapSync\<close> returns
  without raising.
\<close>

theorem C3_unwrap_err_counterexample:
  "unwrapSync (err None) (Some (\<lambda>e. Inr JUndefined))
     = Inl (JError ''Error'' ''Error was unwrapped'')
   \<and> unwrap (err None) (Some (\<lambda>e. Inr (JPromise (Fulfilled JNull))))
       = Rejected (JError ''Error'' ''Error was unwrapped'')
   \<and> unwrapSync (err (Some (fmupd ''ok'' (JBool True) fmempty))) None
       = Inr (fmupd ''ok'' (JBool True) fmempty)"
  by (simp add: unwrapSync_def unwrap_def err_def spread_def get_def optional_call_def
      nullish_coalesce_def new_Error_def)

text \<open>
  C9 (as amended). For an omitted payload and for every payload with no property named
  \<^verbatim>\<open>ok\<close>: \<^verbatim>\<open>assert\<close> of \<^verbatim>\<open>ok(P)\<close> returns, with nothing as its value; \<^verbatim>\<open>assert\<close> of
  \<^verbatim>\<open>err(P)\<close> without a producer throws the \<^verbatim>\<open>Error\<close> whose message is
  "Error was asserted"; and with a producer that returns a value other than \<^verbatim>\<open>null\<close>
  and \<^verbatim>\<open>undefined\<close> it throws that value.
\<close>

theorem C9_assert:
  assumes "fmlookup (spread v) ''ok'' = None"
  shows "assert (ok v) elseThrow = Inr ()
       \<and> assert (err v) None = Inl (new_Error ''Error was asserted'')
       \<and> (f (err v) = Inr r \<and> \<not> nullish r \<longrightarrow> assert (err v) (Some f) = Inl r)"
  using assms
  by (simp add: assert_def get_def lookup_ok lookup_err optional_call_def nullish_coalesce_def)

text \<open>C9 with no payload and a producer that returns \<^verbatim>\<open>7\<close>.\<close>

theorem C9_assert_witness:
  "fmlookup (spread None) ''ok'' = None
   \<and> \<not> nullish (JNum 7)
   \<and> assert (ok None) None = Inr ()
   \<and> assert (err None) None = Inl (new_Error ''Error was asserted'')
   \<and> assert (err None) (Some (\<lambda>e. Inr (JNum 7))) = Inl (JNum 7)"
  using C9_assert [of None None "\<lambda>e. Inr (JNum 7)" "JNum 7"]
  by (simp add: spread_def)

text \<open>
  C9 as first stated fails in two places. A producer that returns \<^verbatim>\<open>null\<close> does not
  have its value thrown: the default error is. And \<^verbatim>\<open>ok({ ok: false })\<close> is
  \<^verbatim>\<open>{ ok: false }\<close>, on which \<^verbatim>\<open>assert\<close> throws.
\<close>

theorem C9_assert_counterexample:
  "assert (err None) (Some (\<lambda>e. Inr JNull)) = Inl (JError ''Error'' ''Error was asserted'')
   \<and> assert (ok (Some (fmupd ''ok'' (JBool False) fmempty))) None
       = Inl (JError ''Error'' ''Error was asserted'')"
  by (simp add: assert_def ok_def err_def spread_def get_def optional_call_def
      nullish_coalesce_def new_Error_def)

text \<open>
  C10. On a result whose \<^verbatim>\<open>ok\<close> counts as false, a producer that returns \<^verbatim>\<open>null\<close> or
  \<^verbatim>\<open>undefined\<close> makes \<^verbatim>\<open>unwrapSync\<close> throw the default \<^verbatim>\<open>Error\<close> "Error was unwrapped"
  and \<^verbatim>\<open>assert\<close> throw the default \<^verbatim>\<open>Error\<close> "Error was asserted"; a producer whose
  returned value, once awaited, is \<^verbatim>\<open>null\<close> or \<^verbatim>\<open>undefined\<close> makes \<^verbatim>\<open>unwrap\<close> reject
  with the default \<^verbatim>\<open>Error\<close> "Error was unwrapped". The value raised is never the
  producer's \<^verbatim>\<open>null\<close> or \<^verbatim>\<open>undefined\<close>.
\<close>

theorem C10_nullish_producer_gives_default:
  assumes "\<not> truthy (get result ''ok'')" and "nullish r"
  shows "(f result = Inr r \<longrightarrow>
            unwrapSync result (Some f) = Inl (new_Error ''Error was unwrapped'')
          \<and> assert result (Some f) = Inl (new_Error ''Error was asserted'')
          \<and> unwrapSync result (Some f) \<noteq> Inl r
          \<and> assert result (Some f) \<noteq> Inl r)
       \<and> (g result = Inr x \<and> await x = Fulfilled r \<longrightarrow>
            unwrap result (Some g) = Rejected (new_Error ''Error was unwrapped'')
          \<and> unwrap result (Some g) \<noteq> Rejected r)"
  using assms
  by (auto simp: unwrapSync_def unwrap_def assert_def optional_call_def nullish_coalesce_def
      new_Error_def)

text \<open>C10 on \<^verbatim>\<open>err()\<close> with a producer that returns \<^verbatim>\<open>undefined\<close>.\<close>

theorem C10_nullish_producer_gives_default_witness:
  "\<not> truthy (get (err None) ''ok'') \<and> nullish JUndefined
   \<and> await JUndefined = Fulfilled JUndefined
   \<and> unwrapSync (err None) (Some (\<lambda>e. Inr JUndefined)) = Inl (new_Error ''Error was unwrapped'')
   \<and> assert (err None) (Some (\<lambda>e. Inr JUndefined)) = Inl (new_Error ''Error was asserted'')
   \<and> unwrap (err None) (Some (\<lambda>e. Inr JUndefined)) = Rejected (new_Error ''Error was unwrapped'')"
  using C10_nullish_producer_gives_default
          [of "err None" JUndefined "\<lambda>e. Inr JUndefined" "\<lambda>e. Inr JUndefined" JUndefined]
  by (simp add: err_def spread_def get_def)

section \<open>Properties of the catch functions\<close>

text \<open>The filter's answer is taken by its truth value.\<close>

lemma catchErrSync_filter:
  "cb () = Inl S \<Longrightarrow> test S = Inr t \<Longrightarrow>
     catchErrSync cb (Some test) =
       (if truthy t then Inr (err (Some (fmupd ''caught'' S fmempty))) else Inl S)"
  by (simp add: catchErrSync_def optional_call_def)

text \<open>A filter that throws replaces the signal by what it threw.\<close>

lemma catchErrSync_filter_throws:
  "cb () = Inl S \<Longrightarrow> test S = Inl s \<Longrightarrow> catchErrSync cb (Some test) = Inl s"
  by (simp add: catchErrSync_def optional_call_def)

text \<open>Without a filter, \<^verbatim>\<open>test?.(caught)\<close> is \<^verbatim>\<open>undefined\<close>, the \<^verbatim>\<open>if\<close> fails and the
  signal is thrown again, whatever it is.\<close>

lemma catch_without_filter:
  "(cb () = Inl S \<longrightarrow> catchErrSync cb None = Inl S)
   \<and> (cb () = Inl S \<or> (\<exists>x. cb () = Inr x \<and> await x = Rejected S) \<longrightarrow>
        catchErr cb None = Rejected S)"
  by (auto simp: catchErrSync_def catchErr_def optional_call_def)

text \<open>
  C1, on the code. \<^verbatim>\<open>catchErrSync(() => { throw "boom" })\<close> with no filter throws
  \<^verbatim>\<open>"boom"\<close> again, and \<^verbatim>\<open>catchErr\<close> with no filter rejects with \<^verbatim>\<open>"boom"\<close>, both for a
  callback that throws it and for one that returns a promise rejected with it. None of
  the three is the result \<^verbatim>\<open>{ ok: false, caught: "boom" }\<close>.
\<close>

theorem C1_no_filter_rethrows:
  "catchErrSync (\<lambda>u. Inl (JStr ''boom'')) None = Inl (JStr ''boom'')
   \<and> catchErr (\<lambda>u. Inl (JStr ''boom'')) None = Rejected (JStr ''boom'')
   \<and> catchErr (\<lambda>u. Inr (JPromise (Rejected (JStr ''boom'')))) None = Rejected (JStr ''boom'')"
  by (simp add: catchErrSync_def catchErr_def optional_call_def)





end
